theory Spec2Isabelle
  imports Complex_Main "HOL-Library.Word"
begin

section \<open>JavaScript values\<close>

text \<open>
  The backend (\<^verbatim>\<open>src/backend/backend.js\<close>) works on decoded JSON: the body of the
  tweet-lookup answer, the object it builds for the frontend, the answer of the
  sentiment service. A JavaScript string is a sequence of UTF-16 code units and
  \<^verbatim>\<open>.length\<close> counts code units, so a string is a list of 16-bit words; \<open>lit\<close> embeds
  the ASCII literals of the source.
\<close>

type_synonym code_unit = "16 word"
type_synonym js_string = "code_unit list"

definition lit :: "string \<Rightarrow> js_string" where
  "lit s = map of_char s"

text \<open>
  The runtime errors of the program: the \<^verbatim>\<open>TypeError\<close> of a property read on
  \<^verbatim>\<open>undefined\<close> or \<^verbatim>\<open>null\<close> (which of the two, and the property that was read),
  and the fault with which a call to an upstream service fails.
\<close>

datatype nullish = Undefined | Null

datatype js_error = TypeError nullish js_string | UpstreamFault js_string

text \<open>
  An object is the list of its own properties, of distinct names, in insertion order
  (which is the order in which \<^verbatim>\<open>JSON.stringify\<close> writes them). \<open>JErr\<close> is an \<^verbatim>\<open>Error\<close> object, as caught by
  a \<^verbatim>\<open>catch\<close> clause. Finite numbers are rationals; only whether a number is zero is
  ever looked at.
\<close>

datatype jsval =
    JUndefined
  | JNull
  | JBool bool
  | JNum rat
  | JStr js_string
  | JArr "jsval list"
  | JObj "(js_string \<times> jsval) list"
  | JErr js_error

text \<open>
  \<open>get_prop v k\<close> is the member access \<^verbatim>\<open>v.k\<close> for the property names that the program
  reads (\<^verbatim>\<open>data\<close>, \<^verbatim>\<open>errors\<close>, \<^verbatim>\<open>id\<close>, \<^verbatim>\<open>text\<close>, \<^verbatim>\<open>value\<close>, \<^verbatim>\<open>title\<close>, \<^verbatim>\<open>detail\<close>, \<^verbatim>\<open>doc\<close>,
  \<^verbatim>\<open>documentSentiment\<close>, \<^verbatim>\<open>score\<close>, \<^verbatim>\<open>magnitude\<close>): none of them is defined on a built-in
  prototype, so on a boolean, a number, a string, an array or an \<^verbatim>\<open>Error\<close> object the read
  gives \<^verbatim>\<open>undefined\<close>, and on an object it gives the own property or \<^verbatim>\<open>undefined\<close>.
  On \<^verbatim>\<open>undefined\<close> and \<^verbatim>\<open>null\<close> the read throws.
\<close>

fun get_prop :: "jsval \<Rightarrow> js_string \<Rightarrow> js_error + jsval" where
  "get_prop JUndefined k = Inl (TypeError Undefined k)"
| "get_prop JNull k = Inl (TypeError Null k)"
| "get_prop (JObj kvs) k = Inr (case map_of kvs k of None \<Rightarrow> JUndefined | Some v \<Rightarrow> v)"
| "get_prop (JBool b) k = Inr JUndefined"
| "get_prop (JNum n) k = Inr JUndefined"
| "get_prop (JStr s) k = Inr JUndefined"
| "get_prop (JArr xs) k = Inr JUndefined"
| "get_prop (JErr e) k = Inr JUndefined"

text \<open>
  \<open>get_elem0 v\<close> is the indexed access \<^verbatim>\<open>v[0]\<close>: the first element of an array, the first
  code unit of a string, the property \<^verbatim>\<open>"0"\<close> of an object, \<^verbatim>\<open>undefined\<close> where there is
  none, and a \<^verbatim>\<open>TypeError\<close> on \<^verbatim>\<open>undefined\<close> and \<^verbatim>\<open>null\<close>.
\<close>

fun get_elem0 :: "jsval \<Rightarrow> js_error + jsval" where
  "get_elem0 JUndefined = Inl (TypeError Undefined (lit ''0''))"
| "get_elem0 JNull = Inl (TypeError Null (lit ''0''))"
| "get_elem0 (JArr xs) = Inr (case xs of [] \<Rightarrow> JUndefined | x # _ \<Rightarrow> x)"
| "get_elem0 (JStr s) = Inr (case s of [] \<Rightarrow> JUndefined | c # _ \<Rightarrow> JStr [c])"
| "get_elem0 (JObj kvs) = Inr (case map_of kvs (lit ''0'') of None \<Rightarrow> JUndefined | Some v \<Rightarrow> v)"
| "get_elem0 (JBool b) = Inr JUndefined"
| "get_elem0 (JNum n) = Inr JUndefined"
| "get_elem0 (JErr e) = Inr JUndefined"

text \<open>The conversion to boolean of a condition (\<^verbatim>\<open>c ? a : b\<close>, \<^verbatim>\<open>if (c)\<close>).\<close>

fun truthy :: "jsval \<Rightarrow> bool" where
  "truthy JUndefined = False"
| "truthy JNull = False"
| "truthy (JBool b) = b"
| "truthy (JNum n) = (n \<noteq> 0)"
| "truthy (JStr s) = (s \<noteq> [])"
| "truthy (JArr xs) = True"
| "truthy (JObj kvs) = True"
| "truthy (JErr e) = True"

text \<open>The \<^verbatim>\<open>typeof\<close> operator; \<^verbatim>\<open>typeof null\<close> is \<^verbatim>\<open>"object"\<close>.\<close>

fun typeof :: "jsval \<Rightarrow> js_string" where
  "typeof JUndefined = lit ''undefined''"
| "typeof JNull = lit ''object''"
| "typeof (JBool b) = lit ''boolean''"
| "typeof (JNum n) = lit ''number''"
| "typeof (JStr s) = lit ''string''"
| "typeof (JArr xs) = lit ''object''"
| "typeof (JObj kvs) = lit ''object''"
| "typeof (JErr e) = lit ''object''"

subsection \<open>Exceptions as values\<close>

text \<open>
  A computation that may throw returns \<open>Inl\<close> the error or \<open>Inr\<close> its value. \<open>and_then\<close>
  sequences two statements; \<open>try_catch\<close> is \<^verbatim>\<open>try { ... } catch (error) { ... }\<close>.
\<close>

definition and_then :: "'e + 'a \<Rightarrow> ('a \<Rightarrow> 'e + 'b) \<Rightarrow> 'e + 'b" where
  "and_then r f = (case r of Inl e \<Rightarrow> Inl e | Inr v \<Rightarrow> f v)"

definition try_catch :: "'e + 'a \<Rightarrow> ('e \<Rightarrow> 'e + 'a) \<Rightarrow> 'e + 'a" where
  "try_catch block handler = (case block of Inl e \<Rightarrow> handler e | Inr v \<Rightarrow> Inr v)"

section \<open>The tweet lookup\<close>

text \<open>
  \<^verbatim>\<open>tweetIdIsValid\<close>, \<^verbatim>\<open>extractId\<close> and \<^verbatim>\<open>extractText\<close> of the source, on the decoded body
  of the lookup answer.
\<close>

definition tweetIdIsValid :: "jsval \<Rightarrow> js_error + bool" where
  "tweetIdIsValid tweet_response =
     and_then (get_prop tweet_response (lit ''data''))
       (\<lambda>d. Inr (if truthy d then True else False))"

text \<open>The path \<^verbatim>\<open>tweet_response.k[0]\<close>, read anew at each of its occurrences.\<close>

definition first_of :: "jsval \<Rightarrow> js_string \<Rightarrow> js_error + jsval" where
  "first_of tweet_response k = and_then (get_prop tweet_response k) get_elem0"

definition extractId :: "jsval \<Rightarrow> js_error + jsval" where
  "extractId tweet_response =
     and_then (tweetIdIsValid tweet_response) (\<lambda>valid.
       if valid then
         and_then (first_of tweet_response (lit ''data'')) (\<lambda>first.
         get_prop first (lit ''id''))
       else
         and_then (first_of tweet_response (lit ''errors'')) (\<lambda>first.
         get_prop first (lit ''value'')))"

definition extractText :: "jsval \<Rightarrow> js_error + jsval" where
  "extractText tweet_response =
     and_then (tweetIdIsValid tweet_response) (\<lambda>valid.
       if valid then
         and_then (first_of tweet_response (lit ''data'')) (\<lambda>first.
         get_prop first (lit ''text''))
       else
         and_then (first_of tweet_response (lit ''errors'')) (\<lambda>first.
         and_then (get_prop first (lit ''title'')) (\<lambda>title.
         and_then (first_of tweet_response (lit ''errors'')) (\<lambda>first'.
         and_then (get_prop first' (lit ''detail'')) (\<lambda>detail.
         Inr (JObj [(lit ''message'', title), (lit ''error'', detail)]))))))"

text \<open>
  The answer of the HTTP client (axios) to the lookup request; the program reads its
  \<^verbatim>\<open>data\<close> only, the decoded body.
\<close>

record axios_response =
  data :: jsval

text \<open>
  \<^verbatim>\<open>sendRequestToTwitter\<close>. The text of \<^verbatim>\<open>error.message\<close> is chosen by the JavaScript
  engine and differs between its versions, so it is the parameter \<open>message\<close>. Awaiting a
  value that is no promise gives the value.
\<close>

definition sendRequestToTwitter ::
  "(js_error \<Rightarrow> js_string) \<Rightarrow> axios_response \<Rightarrow> js_error + jsval" where
  "sendRequestToTwitter message twitter_response =
     try_catch
       (let twitter_json_data = data twitter_response in
        and_then (extractText twitter_json_data) (\<lambda>tweet_text.
        and_then (extractId twitter_json_data) (\<lambda>tweet_id.
        Inr (JObj [(lit ''text'', tweet_text), (lit ''id'', tweet_id)]))))
       (\<lambda>error.
        Inr (JObj [(lit ''error'', JStr (message error)), (lit ''full_stack'', JErr error)]))"

definition responseForFrontendIsError :: "jsval \<Rightarrow> js_error + bool" where
  "responseForFrontendIsError responseForFrontend =
     and_then (get_prop responseForFrontend (lit ''text'')) (\<lambda>text.
       Inr (typeof text = lit ''object'' \<and> text \<noteq> JNull))"

definition twitter_base_url :: js_string where
  "twitter_base_url = lit ''https://api.twitter.com/2''"

definition buildURL :: "js_string \<Rightarrow> js_string" where
  "buildURL tweet_id =
     (let endpoint_and_param = lit ''/tweets?ids='' @ tweet_id
      in twitter_base_url @ endpoint_and_param)"

section \<open>The endpoints\<close>

text \<open>The status codes of the package http-status-codes that the program names.\<close>

definition BAD_REQUEST :: nat where
  "BAD_REQUEST = 400"

definition OK :: nat where
  "OK = 200"

text \<open>
  What a handler sends: the status and the value handed to \<^verbatim>\<open>json\<close> or \<^verbatim>\<open>send\<close>.
  What a request to \<^verbatim>\<open>/analyze/:id\<close> does: the URLs it requested from the lookup
  service, in order, and the response it sent, if any.
\<close>

record reply =
  status :: nat
  body :: jsval

record handled =
  upstream_calls :: "js_string list"
  sent :: "reply option"

text \<open>
  The callback that receives the result of \<^verbatim>\<open>sendRequestToTwitter\<close> (lines 50 to 56):
  it classifies the result and sends it unchanged under the status chosen.
\<close>

definition on_lookup_result :: "jsval \<Rightarrow> js_error + reply" where
  "on_lookup_result d =
     and_then (responseForFrontendIsError d) (\<lambda>is_error.
       if is_error then Inr \<lparr>status = BAD_REQUEST, body = d\<rparr>
       else Inr \<lparr>status = OK, body = d\<rparr>)"

text \<open>
  The handler of \<^verbatim>\<open>POST /analyze/:id\<close>. \<open>instance_get\<close> is the lookup service behind
  \<^verbatim>\<open>instance.get\<close>: it answers a URL with a response, or the promise is rejected. The
  promise chain has no rejection handler, so after a rejection, or an exception in a
  callback, nothing is sent.
\<close>

definition post_analyze_id ::
  "(js_error \<Rightarrow> js_string) \<Rightarrow> (js_string \<Rightarrow> js_error + axios_response) \<Rightarrow> js_string \<Rightarrow> handled" where
  "post_analyze_id message instance_get request_id =
     (let id_length = length request_id in
      if id_length \<noteq> 19 then
        \<lparr>upstream_calls = [],
         sent = Some \<lparr>status = BAD_REQUEST,
           body = JObj [(lit ''error'', JStr (lit ''Invalid ID.'')),
             (lit ''message'', JStr (lit ''ID must be a 19-character long Tweet ID.''))]\<rparr>\<rparr>
      else
        (let tweet_id = request_id;
             twitter_formatted_url = buildURL tweet_id
         in \<lparr>upstream_calls = [twitter_formatted_url],
             sent =
               (case and_then (instance_get twitter_formatted_url) (\<lambda>res.
                     and_then (sendRequestToTwitter message res) on_lookup_result) of
                  Inl e \<Rightarrow> None
                | Inr r \<Rightarrow> Some r)\<rparr>))"

section \<open>The sentiment analysis\<close>

text \<open>
  \<^verbatim>\<open>analyzeSentiment\<close>. \<open>client\<close> is the call \<^verbatim>\<open>client.analyzeSentiment\<close> of the
  language-service package, constructor included: it fails with a fault or is fulfilled
  with an array, whose first element the program names \<^verbatim>\<open>result\<close> (\<^verbatim>\<open>undefined\<close> when
  the array is empty). The function ends without \<^verbatim>\<open>return\<close>, that is with \<^verbatim>\<open>undefined\<close>,
  after the \<^verbatim>\<open>catch\<close> clause and when \<^verbatim>\<open>result\<close> is falsy.
\<close>

definition sentiment_request :: "jsval \<Rightarrow> jsval" where
  "sentiment_request text =
     (let document = JObj [(lit ''content'', text), (lit ''type'', JStr (lit ''PLAIN_TEXT''))]
      in JObj [(lit ''document'', document)])"

definition analyzeSentiment ::
  "(jsval \<Rightarrow> js_error + jsval list) \<Rightarrow> jsval \<Rightarrow> js_error + jsval" where
  "analyzeSentiment client doc =
     try_catch
       (let text = doc in
        and_then (client (sentiment_request text)) (\<lambda>answer.
        let result = (case answer of [] \<Rightarrow> JUndefined | r # _ \<Rightarrow> r) in
        and_then (get_prop result (lit ''documentSentiment'')) (\<lambda>sentiment.
        and_then (get_prop sentiment (lit ''score'')) (\<lambda>score.
        and_then (get_prop sentiment (lit ''magnitude'')) (\<lambda>magnitude.
        if truthy result then Inr result else Inr JUndefined)))))
       (\<lambda>err. Inr JUndefined)"

text \<open>
  The handler of \<^verbatim>\<open>POST /google/analyze\<close>, on the decoded request body. \<^verbatim>\<open>res.send\<close>
  leaves the status at its default, 200. The destructuring of the body stands before
  the \<^verbatim>\<open>try\<close>: if it throws, nothing is sent.
\<close>

definition post_google_analyze ::
  "(jsval \<Rightarrow> js_error + jsval list) \<Rightarrow> jsval \<Rightarrow> reply option" where
  "post_google_analyze client req_body =
     (case get_prop req_body (lit ''doc'') of
        Inl e \<Rightarrow> None
      | Inr doc \<Rightarrow>
          (case analyzeSentiment client doc of
             Inr response \<Rightarrow>
               if truthy response then Some \<lparr>status = 200, body = response\<rparr> else None
           | Inl err \<Rightarrow> Some \<lparr>status = 401, body = JStr (lit ''error'')\<rparr>))"

section \<open>The words of the specification\<close>

text \<open>
  The decision rule of the specification speaks of a structured object, as opposed to
  a primitive value, and of a null-equivalent absence.
\<close>

definition structured_object :: "jsval \<Rightarrow> bool" where
  "structured_object v =
     (case v of JObj kvs \<Rightarrow> True | JArr xs \<Rightarrow> True | JErr e \<Rightarrow> True | _ \<Rightarrow> False)"

definition null_equivalent :: "jsval \<Rightarrow> bool" where
  "null_equivalent v = (v = JNull \<or> v = JUndefined)"

text \<open>
  The failure variant of the normalized lookup result, as the specification describes
  it: an object of exactly the two fields \<^verbatim>\<open>message\<close> and \<^verbatim>\<open>error\<close>, both strings.
\<close>

definition failure_variant :: "jsval \<Rightarrow> bool" where
  "failure_variant v =
     (case v of
        JObj kvs \<Rightarrow>
          (case map_of kvs (lit ''message'') of
             Some (JStr m) \<Rightarrow>
               (case map_of kvs (lit ''error'') of
                  Some (JStr e) \<Rightarrow> length kvs = 2
                | _ \<Rightarrow> False)
           | _ \<Rightarrow> False)
      | _ \<Rightarrow> False)"

section \<open>Basic facts\<close>

lemma of_char_less_256: "(of_char c :: nat) < 256"
proof -
  have "(of_char c :: nat) mod 256 < 256" by simp
  then show ?thesis by (simp only: of_char_mod_256)
qed

lemma unat_of_char: "unat (of_char c :: code_unit) = of_char c"
proof -
  have "(of_char c :: nat) < 2 ^ LENGTH(16)"
    by (rule less_trans [OF of_char_less_256]) simp
  then have "unat (of_nat (of_char c) :: code_unit) = of_char c"
    by (rule of_nat_inverse [OF refl])
  then show ?thesis by (simp only: of_nat_of_char)
qed

lemma inj_code_unit: "inj (of_char :: char \<Rightarrow> code_unit)"
proof (rule injI)
  fix c d :: char
  assume "(of_char c :: code_unit) = of_char d"
  then have "unat (of_char c :: code_unit) = unat (of_char d :: code_unit)" by simp
  then have "(of_char c :: nat) = of_char d" by (simp only: unat_of_char)
  then show "c = d" by simp
qed

text \<open>Distinct literals of the source are distinct strings, of the length written.\<close>

lemma lit_eq_iff [simp]: "lit a = lit b \<longleftrightarrow> a = b"
  unfolding lit_def by (simp add: inj_map_eq_map [OF inj_code_unit])

lemma length_lit [simp]: "length (lit s) = length s"
  by (simp add: lit_def)

lemma and_then_Inl [simp]: "and_then (Inl e) f = Inl e"
  by (simp add: and_then_def)

lemma and_then_Inr [simp]: "and_then (Inr v) f = f v"
  by (simp add: and_then_def)

lemma try_catch_Inl [simp]: "try_catch (Inl e) h = h e"
  by (simp add: try_catch_def)

lemma try_catch_Inr [simp]: "try_catch (Inr v) h = Inr v"
  by (simp add: try_catch_def)

lemma typeof_object_iff:
  "(typeof v = lit ''object'' \<and> v \<noteq> JNull) = (structured_object v \<and> \<not> null_equivalent v)"
  by (cases v) (simp_all add: structured_object_def null_equivalent_def)

section \<open>The response normalizer\<close>

text \<open>
  C3. A payload is classified as an error exactly when the value of its \<^verbatim>\<open>text\<close> field
  is a structured object and not a null-equivalent absence: the classification is this
  test applied to the value read from \<^verbatim>\<open>text\<close> (and on a payload that is itself
  \<^verbatim>\<open>undefined\<close> or \<^verbatim>\<open>null\<close>, where there is no field to read, it throws as the read does).
\<close>

theorem classification_rule:
  "responseForFrontendIsError payload =
     and_then (get_prop payload (lit ''text''))
       (\<lambda>text. Inr (structured_object text \<and> \<not> null_equivalent text))"
  by (simp add: responseForFrontendIsError_def typeof_object_iff)

text \<open>
  C8. Classification is idempotent: classifying a payload, and then classifying the
  payload that the first classification hands on (the body to be sent), gives what
  classifying it once gives, the same boolean.
\<close>

theorem classification_idempotent:
  "and_then (on_lookup_result payload) (\<lambda>r. responseForFrontendIsError (body r)) =
     responseForFrontendIsError payload"
  by (cases "responseForFrontendIsError payload") (simp_all add: on_lookup_result_def)

section \<open>The identifier-analysis endpoint\<close>

text \<open>
  C4. An identifier whose length is not 19 is answered with status 400 and the body
  \<^verbatim>\<open>{error: "Invalid ID.", message: "ID must be a 19-character long Tweet ID."}\<close>, and
  no request to the lookup service is made.
\<close>

theorem invalid_length_rejected:
  assumes "length request_id \<noteq> 19"
  shows "post_analyze_id message instance_get request_id =
    \<lparr>upstream_calls = [],
     sent = Some \<lparr>status = 400,
       body = JObj [(lit ''error'', JStr (lit ''Invalid ID.'')),
         (lit ''message'', JStr (lit ''ID must be a 19-character long Tweet ID.''))]\<rparr>\<rparr>"
  using assms by (simp add: post_analyze_id_def BAD_REQUEST_def)

text \<open>The second end-to-end scenario of the specification: the identifier \<^verbatim>\<open>short\<close>.\<close>

theorem invalid_length_rejected_witness:
  "length (lit ''short'') \<noteq> 19 \<and>
   post_analyze_id (\<lambda>e. []) (\<lambda>url. Inl (UpstreamFault [])) (lit ''short'') =
    \<lparr>upstream_calls = [],
     sent = Some \<lparr>status = 400,
       body = JObj [(lit ''error'', JStr (lit ''Invalid ID.'')),
         (lit ''message'', JStr (lit ''ID must be a 19-character long Tweet ID.''))]\<rparr>\<rparr>"
proof -
  have short: "length (lit ''short'') \<noteq> 19" by simp
  show ?thesis
    using short invalid_length_rejected [OF short, of "\<lambda>e. []" "\<lambda>url. Inl (UpstreamFault [])"]
    by simp
qed

section \<open>The tweet resolution client\<close>

text \<open>
  What the two extraction functions compute on each shape of the envelope, and what
  \<^verbatim>\<open>sendRequestToTwitter\<close> makes of their outcomes.
\<close>

lemma data_variant_valid:
  assumes "get_prop envelope (lit ''data'') = Inr (JArr xs)"
  shows "tweetIdIsValid envelope = Inr True"
  using assms by (simp add: tweetIdIsValid_def)

lemma data_variant_text:
  assumes "get_prop envelope (lit ''data'') = Inr (JArr (first # rest))"
  shows "extractText envelope = get_prop first (lit ''text'')"
  using assms by (simp add: extractText_def tweetIdIsValid_def first_of_def)

lemma data_variant_id:
  assumes "get_prop envelope (lit ''data'') = Inr (JArr (first # rest))"
  shows "extractId envelope = get_prop first (lit ''id'')"
  using assms by (simp add: extractId_def tweetIdIsValid_def first_of_def)

lemma empty_data_text:
  assumes "get_prop envelope (lit ''data'') = Inr (JArr [])"
  shows "extractText envelope = Inl (TypeError Undefined (lit ''text''))"
  using assms by (simp add: extractText_def tweetIdIsValid_def first_of_def)

lemma error_variant_text:
  assumes "get_prop envelope (lit ''data'') = Inr JUndefined"
    and "get_prop envelope (lit ''errors'') = Inr (JArr (first # rest))"
  shows "extractText envelope =
    and_then (get_prop first (lit ''title'')) (\<lambda>title.
    and_then (get_prop first (lit ''detail'')) (\<lambda>detail.
      Inr (JObj [(lit ''message'', title), (lit ''error'', detail)])))"
  using assms by (simp add: extractText_def tweetIdIsValid_def first_of_def)

lemma error_variant_id:
  assumes "get_prop envelope (lit ''data'') = Inr JUndefined"
    and "get_prop envelope (lit ''errors'') = Inr (JArr (first # rest))"
  shows "extractId envelope = get_prop first (lit ''value'')"
  using assms by (simp add: extractId_def tweetIdIsValid_def first_of_def)

lemma send_ok:
  assumes "extractText envelope = Inr t" and "extractId envelope = Inr i"
  shows "sendRequestToTwitter message \<lparr>data = envelope\<rparr> =
    Inr (JObj [(lit ''text'', t), (lit ''id'', i)])"
  using assms by (simp add: sendRequestToTwitter_def)

lemma send_caught:
  assumes "extractText envelope = Inl e \<or> ((\<exists>t. extractText envelope = Inr t) \<and> extractId envelope = Inl e)"
  shows "sendRequestToTwitter message \<lparr>data = envelope\<rparr> =
    Inr (JObj [(lit ''error'', JStr (message e)), (lit ''full_stack'', JErr e)])"
  using assms by (auto simp add: sendRequestToTwitter_def)

lemma send_total: "\<exists>v. sendRequestToTwitter message r = Inr v"
  by (cases "extractText (data r)"; cases "extractId (data r)")
     (simp_all add: sendRequestToTwitter_def)

lemma classify_text:
  "responseForFrontendIsError (JObj ((lit ''text'', t) # kvs)) =
     Inr (structured_object t \<and> \<not> null_equivalent t)"
  by (simp add: responseForFrontendIsError_def typeof_object_iff)

text \<open>
  C2. On an envelope whose \<^verbatim>\<open>data\<close> is a non-empty sequence and whose first record can
  be read (it is neither \<^verbatim>\<open>null\<close> nor \<^verbatim>\<open>undefined\<close>) and has a text that is not a
  structured object, the client returns the object of the two fields
  \<^verbatim>\<open>text: data[0].text\<close> and \<^verbatim>\<open>id: data[0].id\<close> (written in this order), whatever the
  records after the first are, and the normalizer classifies it as a success.
\<close>

theorem data_envelope_result:
  assumes "get_prop envelope (lit ''data'') = Inr (JArr (first # rest))"
    and "get_prop first (lit ''id'') = Inr i"
    and "get_prop first (lit ''text'') = Inr t"
    and "\<not> structured_object t"
  shows "sendRequestToTwitter message \<lparr>data = envelope\<rparr> =
      Inr (JObj [(lit ''text'', t), (lit ''id'', i)]) \<and>
    responseForFrontendIsError (JObj [(lit ''text'', t), (lit ''id'', i)]) = Inr False"
proof -
  have "extractText envelope = Inr t"
    using assms by (simp add: data_variant_text)
  moreover have "extractId envelope = Inr i"
    using assms by (simp add: data_variant_id)
  ultimately show ?thesis
    using assms(4) by (simp add: send_ok classify_text)
qed

text \<open>
  The first end-to-end scenario of the specification, with a second record after the
  tweet asked for: the second record is not looked at.
\<close>

theorem data_envelope_result_witness:
  "\<not> structured_object (JStr (lit ''hello'')) \<and>
   sendRequestToTwitter (\<lambda>e. [])
     \<lparr>data = JObj [(lit ''data'', JArr
        [JObj [(lit ''id'', JStr (lit ''1234567890123456789'')),
           (lit ''text'', JStr (lit ''hello''))],
         JObj [(lit ''id'', JStr (lit ''9876543210987654321'')),
           (lit ''text'', JStr (lit ''bye''))]])]\<rparr> =
    Inr (JObj [(lit ''text'', JStr (lit ''hello'')),
      (lit ''id'', JStr (lit ''1234567890123456789''))]) \<and>
   responseForFrontendIsError (JObj [(lit ''text'', JStr (lit ''hello'')),
      (lit ''id'', JStr (lit ''1234567890123456789''))]) = Inr False"
proof -
  let ?first = "JObj [(lit ''id'', JStr (lit ''1234567890123456789'')),
         (lit ''text'', JStr (lit ''hello''))]"
  let ?second = "JObj [(lit ''id'', JStr (lit ''9876543210987654321'')),
         (lit ''text'', JStr (lit ''bye''))]"
  let ?envelope = "JObj [(lit ''data'', JArr [?first, ?second])]"
  have a: "get_prop ?envelope (lit ''data'') = Inr (JArr (?first # [?second]))" by simp
  have b: "get_prop ?first (lit ''id'') = Inr (JStr (lit ''1234567890123456789''))" by simp
  have c: "get_prop ?first (lit ''text'') = Inr (JStr (lit ''hello''))" by simp
  have d: "\<not> structured_object (JStr (lit ''hello''))" by (simp add: structured_object_def)
  show ?thesis
    using d data_envelope_result [OF a b c d, of "\<lambda>e. []"] by simp
qed

text \<open>
  Without the two conditions on the first record the statement fails. A first record
  whose text is an object gives a result with that object as its text, which the
  normalizer classifies as an error; a first record that is \<^verbatim>\<open>null\<close> makes the
  extraction throw, and the client returns \<^verbatim>\<open>{error, full_stack}\<close>, which has neither
  the text nor the identifier of any record.
\<close>

theorem data_envelope_counterexample:
  "sendRequestToTwitter (\<lambda>e. lit ''Cannot read properties of null'')
     \<lparr>data = JObj [(lit ''data'', JArr [JObj
        [(lit ''id'', JStr (lit ''1234567890123456789'')), (lit ''text'', JObj [])]])]\<rparr> =
     Inr (JObj [(lit ''text'', JObj []), (lit ''id'', JStr (lit ''1234567890123456789''))]) \<and>
   responseForFrontendIsError
     (JObj [(lit ''text'', JObj []), (lit ''id'', JStr (lit ''1234567890123456789''))]) =
     Inr True \<and>
   sendRequestToTwitter (\<lambda>e. lit ''Cannot read properties of null'')
     \<lparr>data = JObj [(lit ''data'', JArr [JNull,
        JObj [(lit ''id'', JStr (lit ''1234567890123456789'')),
          (lit ''text'', JStr (lit ''hello''))]])]\<rparr> =
     Inr (JObj [(lit ''error'', JStr (lit ''Cannot read properties of null'')),
       (lit ''full_stack'', JErr (TypeError Null (lit ''text'')))]) \<and>
   get_prop (JObj [(lit ''error'', JStr (lit ''Cannot read properties of null'')),
       (lit ''full_stack'', JErr (TypeError Null (lit ''text'')))]) (lit ''id'') =
     Inr JUndefined"
  by (simp add: sendRequestToTwitter_def extractText_def extractId_def tweetIdIsValid_def
      first_of_def responseForFrontendIsError_def)

text \<open>
  C1. On an envelope with no \<^verbatim>\<open>data\<close> field and a non-empty \<^verbatim>\<open>errors\<close> sequence whose
  first element is an error record, the client returns the object
  \<^verbatim>\<open>{text: {message: errors[0].title, error: errors[0].detail}, id: errors[0].value}\<close>:
  the pair of message and error is the value of the field \<^verbatim>\<open>text\<close> of the result, beside
  the field \<^verbatim>\<open>id\<close>, and it is this object in the place of the text that makes the
  normalizer classify the result as an error.
\<close>

theorem error_envelope_result:
  assumes "get_prop envelope (lit ''data'') = Inr JUndefined"
    and "get_prop envelope (lit ''errors'') = Inr (JArr (first # rest))"
    and "get_prop first (lit ''title'') = Inr title"
    and "get_prop first (lit ''detail'') = Inr detail"
    and "get_prop first (lit ''value'') = Inr v"
  shows "sendRequestToTwitter message \<lparr>data = envelope\<rparr> =
      Inr (JObj [(lit ''text'', JObj [(lit ''message'', title), (lit ''error'', detail)]),
                 (lit ''id'', v)]) \<and>
    responseForFrontendIsError
      (JObj [(lit ''text'', JObj [(lit ''message'', title), (lit ''error'', detail)]),
             (lit ''id'', v)]) = Inr True"
proof -
  have "extractText envelope = Inr (JObj [(lit ''message'', title), (lit ''error'', detail)])"
    using assms by (simp add: error_variant_text)
  moreover have "extractId envelope = Inr v"
    using assms by (simp add: error_variant_id)
  ultimately show ?thesis
    by (simp add: send_ok classify_text structured_object_def null_equivalent_def)
qed

text \<open>
  The lookup of an identifier that the service does not know.
\<close>

theorem error_envelope_result_witness:
  "sendRequestToTwitter (\<lambda>e. [])
     \<lparr>data = JObj [(lit ''errors'', JArr [JObj
        [(lit ''value'', JStr (lit ''0000000000000000000'')),
         (lit ''detail'', JStr (lit ''Could not find tweet with id: [0000000000000000000].'')),
         (lit ''title'', JStr (lit ''Not Found Error''))]])]\<rparr> =
    Inr (JObj [(lit ''text'', JObj [(lit ''message'', JStr (lit ''Not Found Error'')),
        (lit ''error'', JStr (lit ''Could not find tweet with id: [0000000000000000000].''))]),
      (lit ''id'', JStr (lit ''0000000000000000000''))])"
proof -
  let ?first = "JObj
        [(lit ''value'', JStr (lit ''0000000000000000000'')),
         (lit ''detail'', JStr (lit ''Could not find tweet with id: [0000000000000000000].'')),
         (lit ''title'', JStr (lit ''Not Found Error''))]"
  let ?envelope = "JObj [(lit ''errors'', JArr [?first])]"
  have a: "get_prop ?envelope (lit ''data'') = Inr JUndefined" by simp
  have b: "get_prop ?envelope (lit ''errors'') = Inr (JArr (?first # []))" by simp
  have c: "get_prop ?first (lit ''title'') = Inr (JStr (lit ''Not Found Error''))" by simp
  have d: "get_prop ?first (lit ''detail'') =
    Inr (JStr (lit ''Could not find tweet with id: [0000000000000000000].''))" by simp
  have e: "get_prop ?first (lit ''value'') = Inr (JStr (lit ''0000000000000000000''))" by simp
  show ?thesis
    using error_envelope_result [OF a b c d e, of "\<lambda>e. []"] by simp
qed

text \<open>
  The result is not the bare pair \<^verbatim>\<open>{message, error}\<close>: on the envelope of the third
  end-to-end scenario of the specification the client returns the pair under \<^verbatim>\<open>text\<close>,
  with an \<^verbatim>\<open>id\<close> beside it.
\<close>

theorem error_envelope_counterexample:
  "sendRequestToTwitter (\<lambda>e. [])
     \<lparr>data = JObj [(lit ''errors'', JArr [JObj
        [(lit ''title'', JStr (lit ''Not Found Error'')),
         (lit ''detail'', JStr (lit ''Could not find tweet with id: [0000000000000000000].''))]])]\<rparr> =
    Inr (JObj [(lit ''text'', JObj [(lit ''message'', JStr (lit ''Not Found Error'')),
        (lit ''error'', JStr (lit ''Could not find tweet with id: [0000000000000000000].''))]),
      (lit ''id'', JUndefined)]) \<and>
   sendRequestToTwitter (\<lambda>e. [])
     \<lparr>data = JObj [(lit ''errors'', JArr [JObj
        [(lit ''title'', JStr (lit ''Not Found Error'')),
         (lit ''detail'', JStr (lit ''Could not find tweet with id: [0000000000000000000].''))]])]\<rparr> \<noteq>
    Inr (JObj [(lit ''message'', JStr (lit ''Not Found Error'')),
        (lit ''error'', JStr (lit ''Could not find tweet with id: [0000000000000000000].''))])"
  by (simp add: sendRequestToTwitter_def extractText_def extractId_def tweetIdIsValid_def
      first_of_def)

text \<open>
  C6. When the extraction of the text or of the identifier throws, the client catches
  the exception and returns the object \<^verbatim>\<open>{error: error.message, full_stack: error}\<close>: the
  message of the exception and the exception object itself. This object has no field
  \<^verbatim>\<open>message\<close> and its \<^verbatim>\<open>full_stack\<close> is no string, so it is not the failure variant of the
  data model. The client returns a value on every response: no exception leaves it.
\<close>

theorem extraction_fault_caught:
  assumes "extractText envelope = Inl e \<or>
    ((\<exists>t. extractText envelope = Inr t) \<and> extractId envelope = Inl e)"
  shows "sendRequestToTwitter message \<lparr>data = envelope\<rparr> =
      Inr (JObj [(lit ''error'', JStr (message e)), (lit ''full_stack'', JErr e)]) \<and>
    \<not> failure_variant (JObj [(lit ''error'', JStr (message e)), (lit ''full_stack'', JErr e)]) \<and>
    (\<forall>r. \<exists>v. sendRequestToTwitter message r = Inr v)"
proof -
  have "sendRequestToTwitter message \<lparr>data = envelope\<rparr> =
      Inr (JObj [(lit ''error'', JStr (message e)), (lit ''full_stack'', JErr e)])"
    using assms by (rule send_caught)
  moreover have
    "\<not> failure_variant (JObj [(lit ''error'', JStr (message e)), (lit ''full_stack'', JErr e)])"
    by (simp add: failure_variant_def)
  ultimately show ?thesis
    using send_total by blast
qed

text \<open>
  An envelope whose \<^verbatim>\<open>data\<close> is the empty sequence: the read of \<^verbatim>\<open>data[0].text\<close> throws.
\<close>

theorem extraction_fault_caught_witness:
  "extractText (JObj [(lit ''data'', JArr [])]) = Inl (TypeError Undefined (lit ''text'')) \<and>
   sendRequestToTwitter (\<lambda>e. lit ''Cannot read properties of undefined'')
     \<lparr>data = JObj [(lit ''data'', JArr [])]\<rparr> =
     Inr (JObj [(lit ''error'', JStr (lit ''Cannot read properties of undefined'')),
       (lit ''full_stack'', JErr (TypeError Undefined (lit ''text'')))])"
proof -
  let ?envelope = "JObj [(lit ''data'', JArr [])]"
  let ?e = "TypeError Undefined (lit ''text'')"
  have a: "extractText ?envelope = Inl ?e"
    by (simp add: extractText_def tweetIdIsValid_def first_of_def)
  then have b: "extractText ?envelope = Inl ?e \<or>
    ((\<exists>t. extractText ?envelope = Inr t) \<and> extractId ?envelope = Inl ?e)" by simp
  show ?thesis
    using a extraction_fault_caught [OF b, of "\<lambda>e. lit ''Cannot read properties of undefined''"]
    by simp
qed

text \<open>
  An envelope whose first record is \<^verbatim>\<open>null\<close>: the extraction throws, and what the client
  returns is not of the shape \<^verbatim>\<open>{message, error}\<close> with two strings.
\<close>

theorem extraction_fault_counterexample:
  "extractText (JObj [(lit ''data'', JArr [JNull])]) = Inl (TypeError Null (lit ''text'')) \<and>
   sendRequestToTwitter (\<lambda>e. lit ''Cannot read properties of null'')
     \<lparr>data = JObj [(lit ''data'', JArr [JNull])]\<rparr> =
     Inr (JObj [(lit ''error'', JStr (lit ''Cannot read properties of null'')),
       (lit ''full_stack'', JErr (TypeError Null (lit ''text'')))]) \<and>
   \<not> failure_variant (JObj [(lit ''error'', JStr (lit ''Cannot read properties of null'')),
       (lit ''full_stack'', JErr (TypeError Null (lit ''text'')))])"
  by (simp add: sendRequestToTwitter_def extractText_def tweetIdIsValid_def first_of_def
      failure_variant_def)

text \<open>
  C9. The discriminator tests only whether \<^verbatim>\<open>data\<close> is truthy. On an envelope whose
  \<^verbatim>\<open>data\<close> is the empty sequence it answers true, the read of \<^verbatim>\<open>data[0].text\<close> throws, the
  \<^verbatim>\<open>catch\<close> clause returns \<^verbatim>\<open>{error, full_stack}\<close>, which has no \<^verbatim>\<open>text\<close>, and the endpoint
  classifies this result as a success and sends it with status 200.
\<close>

theorem empty_data_is_success:
  assumes "get_prop envelope (lit ''data'') = Inr (JArr [])"
    and "length request_id = 19"
    and "instance_get (buildURL request_id) = Inr \<lparr>data = envelope\<rparr>"
  shows "tweetIdIsValid envelope = Inr True \<and>
    extractText envelope = Inl (TypeError Undefined (lit ''text'')) \<and>
    sendRequestToTwitter message \<lparr>data = envelope\<rparr> =
      Inr (JObj [(lit ''error'', JStr (message (TypeError Undefined (lit ''text'')))),
                 (lit ''full_stack'', JErr (TypeError Undefined (lit ''text'')))]) \<and>
    get_prop (JObj [(lit ''error'', JStr (message (TypeError Undefined (lit ''text'')))),
                 (lit ''full_stack'', JErr (TypeError Undefined (lit ''text'')))])
      (lit ''text'') = Inr JUndefined \<and>
    responseForFrontendIsError
      (JObj [(lit ''error'', JStr (message (TypeError Undefined (lit ''text'')))),
             (lit ''full_stack'', JErr (TypeError Undefined (lit ''text'')))]) = Inr False \<and>
    post_analyze_id message instance_get request_id =
      \<lparr>upstream_calls = [buildURL request_id],
       sent = Some \<lparr>status = 200,
         body = JObj [(lit ''error'', JStr (message (TypeError Undefined (lit ''text'')))),
                 (lit ''full_stack'', JErr (TypeError Undefined (lit ''text'')))]\<rparr>\<rparr>"
proof -
  let ?e = "TypeError Undefined (lit ''text'')"
  let ?r = "JObj [(lit ''error'', JStr (message ?e)), (lit ''full_stack'', JErr ?e)]"
  have txt_err: "extractText envelope = Inl ?e"
    using assms(1) by (rule empty_data_text)
  have send: "sendRequestToTwitter message \<lparr>data = envelope\<rparr> = Inr ?r"
    using txt_err by (simp add: send_caught)
  have cls: "responseForFrontendIsError ?r = Inr False"
    by (simp add: responseForFrontendIsError_def)
  have "post_analyze_id message instance_get request_id =
      \<lparr>upstream_calls = [buildURL request_id], sent = Some \<lparr>status = 200, body = ?r\<rparr>\<rparr>"
    using assms(2,3) send cls
    by (simp add: post_analyze_id_def on_lookup_result_def OK_def)
  then show ?thesis
    using data_variant_valid [OF assms(1)] txt_err send cls by simp
qed

text \<open>A well-formed identifier whose lookup is answered with \<^verbatim>\<open>{data: []}\<close>.\<close>

theorem empty_data_is_success_witness:
  "get_prop (JObj [(lit ''data'', JArr [])]) (lit ''data'') = Inr (JArr []) \<and>
   length (lit ''1234567890123456789'') = 19 \<and>
   post_analyze_id (\<lambda>e. lit ''Cannot read properties of undefined'')
     (\<lambda>url. Inr \<lparr>data = JObj [(lit ''data'', JArr [])]\<rparr>) (lit ''1234567890123456789'') =
     \<lparr>upstream_calls = [buildURL (lit ''1234567890123456789'')],
      sent = Some \<lparr>status = 200,
        body = JObj [(lit ''error'', JStr (lit ''Cannot read properties of undefined'')),
          (lit ''full_stack'', JErr (TypeError Undefined (lit ''text'')))]\<rparr>\<rparr>"
proof -
  let ?envelope = "JObj [(lit ''data'', JArr [])]"
  let ?get = "\<lambda>url :: js_string. (Inr \<lparr>data = ?envelope\<rparr> :: js_error + axios_response)"
  have a: "get_prop ?envelope (lit ''data'') = Inr (JArr [])" by simp
  have b: "length (lit ''1234567890123456789'') = 19" by simp
  have c: "?get (buildURL (lit ''1234567890123456789'')) = Inr \<lparr>data = ?envelope\<rparr>" by simp
  show ?thesis
    using a b
      empty_data_is_success [OF a b c, of "\<lambda>e. lit ''Cannot read properties of undefined''"]
    by simp
qed

section \<open>The free-text sentiment endpoint\<close>

lemma get_prop_defined:
  assumes "v \<noteq> JUndefined" and "v \<noteq> JNull"
  shows "\<exists>x. get_prop v k = Inr x"
  using assms by (cases v) simp_all

lemma get_prop_object:
  assumes "get_prop v k = Inr x" and "x \<noteq> JUndefined"
  shows "\<exists>kvs. v = JObj kvs"
  using assms by (cases v) simp_all

lemma analyzeSentiment_total: "\<exists>v. analyzeSentiment client doc = Inr v"
  unfolding analyzeSentiment_def try_catch_def by (simp split: sum.split)

lemma analyzeSentiment_fault:
  assumes "client (sentiment_request doc) = Inl fault"
  shows "analyzeSentiment client doc = Inr JUndefined"
  using assms by (simp add: analyzeSentiment_def)

lemma analyzeSentiment_result:
  assumes "client (sentiment_request doc) = Inr (result # rest)"
    and "get_prop result (lit ''documentSentiment'') = Inr sentiment"
    and "sentiment \<noteq> JUndefined" and "sentiment \<noteq> JNull"
  shows "analyzeSentiment client doc = Inr result \<and> truthy result"
proof -
  obtain kvs where obj: "result = JObj kvs"
    using get_prop_object [OF assms(2,3)] by blast
  obtain s where s: "get_prop sentiment (lit ''score'') = Inr s"
    using get_prop_defined [OF assms(3,4)] by blast
  obtain m where m: "get_prop sentiment (lit ''magnitude'') = Inr m"
    using get_prop_defined [OF assms(3,4)] by blast
  have "truthy result" using obj by simp
  then show ?thesis
    using assms(1,2) s m by (simp add: analyzeSentiment_def)
qed

text \<open>
  C10. \<^verbatim>\<open>analyzeSentiment\<close> never throws. When the sentiment service fails, it catches
  the fault and returns \<^verbatim>\<open>undefined\<close>; the handler then neither enters its \<^verbatim>\<open>catch\<close>
  clause nor sends the falsy result: the caller gets no response.
\<close>

theorem sentiment_fault_unanswered:
  assumes "client (sentiment_request doc) = Inl fault"
    and "get_prop req_body (lit ''doc'') = Inr doc"
  shows "(\<forall>c d. \<exists>v. analyzeSentiment c d = Inr v) \<and>
    analyzeSentiment client doc = Inr JUndefined \<and>
    post_google_analyze client req_body = None"
proof -
  have "analyzeSentiment client doc = Inr JUndefined"
    using assms(1) by (rule analyzeSentiment_fault)
  moreover from this have "post_google_analyze client req_body = None"
    using assms(2) by (simp add: post_google_analyze_def)
  ultimately show ?thesis
    using analyzeSentiment_total by blast
qed

text \<open>A document whose analysis fails because the quota of the service is used up.\<close>

theorem sentiment_fault_unanswered_witness:
  "get_prop (JObj [(lit ''doc'', JStr (lit ''I love this''))]) (lit ''doc'') =
     Inr (JStr (lit ''I love this'')) \<and>
   analyzeSentiment (\<lambda>request. Inl (UpstreamFault (lit ''RESOURCE_EXHAUSTED'')))
     (JStr (lit ''I love this'')) = Inr JUndefined \<and>
   post_google_analyze (\<lambda>request. Inl (UpstreamFault (lit ''RESOURCE_EXHAUSTED'')))
     (JObj [(lit ''doc'', JStr (lit ''I love this''))]) = None"
proof -
  let ?client = "\<lambda>request :: jsval.
    (Inl (UpstreamFault (lit ''RESOURCE_EXHAUSTED'')) :: js_error + jsval list)"
  have a: "?client (sentiment_request (JStr (lit ''I love this''))) =
    Inl (UpstreamFault (lit ''RESOURCE_EXHAUSTED''))" by simp
  have b: "get_prop (JObj [(lit ''doc'', JStr (lit ''I love this''))]) (lit ''doc'') =
     Inr (JStr (lit ''I love this''))" by simp
  show ?thesis
    using b sentiment_fault_unanswered [where client = ?client, OF a b] by simp
qed

text \<open>
  C5. A fault of the sentiment service is to be answered with status 401 and the
  plain text \<^verbatim>\<open>error\<close>, which is what the \<^verbatim>\<open>catch\<close> clause of the handler sends. At a
  request whose call to the service fails for lack of credentials, the handler sends
  nothing: the fault has been caught inside \<^verbatim>\<open>analyzeSentiment\<close> and never reaches
  the clause.
\<close>

theorem sentiment_fault_no_response:
  "post_google_analyze (\<lambda>request. Inl (UpstreamFault (lit ''UNAUTHENTICATED'')))
     (JObj [(lit ''doc'', JStr (lit ''I love this''))]) = None \<and>
   post_google_analyze (\<lambda>request. Inl (UpstreamFault (lit ''UNAUTHENTICATED'')))
     (JObj [(lit ''doc'', JStr (lit ''I love this''))]) \<noteq>
     Some \<lparr>status = 401, body = JStr (lit ''error'')\<rparr>"
  by (simp add: post_google_analyze_def analyzeSentiment_def)

text \<open>
  C7. When the sentiment service answers with a result whose \<^verbatim>\<open>documentSentiment\<close> is a
  sentiment summary (neither \<^verbatim>\<open>null\<close> nor \<^verbatim>\<open>undefined\<close>), the endpoint responds with
  status 200 and the whole result of the service, unchanged: the object that holds the
  summary under \<^verbatim>\<open>documentSentiment\<close>. The score and the magnitude are read from the
  summary on the way, for the log only.
\<close>

theorem sentiment_success_body:
  assumes "get_prop req_body (lit ''doc'') = Inr doc"
    and "client (sentiment_request doc) = Inr (result # rest)"
    and "get_prop result (lit ''documentSentiment'') = Inr sentiment"
    and "sentiment \<noteq> JUndefined" and "sentiment \<noteq> JNull"
  shows "post_google_analyze client req_body = Some \<lparr>status = 200, body = result\<rparr>"
  using assms(1) analyzeSentiment_result [where client = client and doc = doc, OF assms(2,3,4,5)]
  by (simp add: post_google_analyze_def)

text \<open>
  An answer of the service as its client delivers it: the result, with the sentences,
  the summary and the language, followed by two further elements.
\<close>

theorem sentiment_success_body_witness:
  "post_google_analyze
     (\<lambda>request. Inr [JObj [(lit ''sentences'', JArr []),
        (lit ''documentSentiment'',
          JObj [(lit ''magnitude'', JNum (9 / 10)), (lit ''score'', JNum (4 / 5))]),
        (lit ''language'', JStr (lit ''en''))], JUndefined, JUndefined])
     (JObj [(lit ''doc'', JStr (lit ''I love this''))]) =
   Some \<lparr>status = 200,
     body = JObj [(lit ''sentences'', JArr []),
        (lit ''documentSentiment'',
          JObj [(lit ''magnitude'', JNum (9 / 10)), (lit ''score'', JNum (4 / 5))]),
        (lit ''language'', JStr (lit ''en''))]\<rparr>"
proof -
  let ?sentiment = "JObj [(lit ''magnitude'', JNum (9 / 10)), (lit ''score'', JNum (4 / 5))]"
  let ?result = "JObj [(lit ''sentences'', JArr []), (lit ''documentSentiment'', ?sentiment),
        (lit ''language'', JStr (lit ''en''))]"
  let ?client = "\<lambda>request :: jsval.
    (Inr [?result, JUndefined, JUndefined] :: js_error + jsval list)"
  let ?doc = "JStr (lit ''I love this'')"
  have a: "get_prop (JObj [(lit ''doc'', ?doc)]) (lit ''doc'') = Inr ?doc" by simp
  have b: "?client (sentiment_request ?doc) = Inr (?result # [JUndefined, JUndefined])" by simp
  have c: "get_prop ?result (lit ''documentSentiment'') = Inr ?sentiment" by simp
  have d: "?sentiment \<noteq> JUndefined" by simp
  have e: "?sentiment \<noteq> JNull" by simp
  show ?thesis
    using sentiment_success_body [where client = ?client, OF a b c d e] by simp
qed

text \<open>
  The body of the response is not the summary \<^verbatim>\<open>{score: 0.8, magnitude: 0.9}\<close>: it is
  the result around it. And were the service to answer with the bare summary as its
  result, the read of \<^verbatim>\<open>documentSentiment.score\<close> would throw and nothing would be sent.
\<close>

theorem sentiment_summary_counterexample:
  "post_google_analyze
     (\<lambda>request. Inr [JObj [(lit ''documentSentiment'',
          JObj [(lit ''score'', JNum (4 / 5)), (lit ''magnitude'', JNum (9 / 10))])]])
     (JObj [(lit ''doc'', JStr (lit ''I love this''))]) \<noteq>
   Some \<lparr>status = 200,
     body = JObj [(lit ''score'', JNum (4 / 5)), (lit ''magnitude'', JNum (9 / 10))]\<rparr> \<and>
   post_google_analyze
     (\<lambda>request. Inr [JObj [(lit ''score'', JNum (4 / 5)), (lit ''magnitude'', JNum (9 / 10))]])
     (JObj [(lit ''doc'', JStr (lit ''I love this''))]) = None"
  by (simp add: post_google_analyze_def analyzeSentiment_def)

end
